theory Spec2Isabelle
  imports Main "HOL-Library.Multiset" "HOL-Library.Product_Lexorder"
begin

section \<open>Data model\<close>

text \<open>
  The repository holds two variants of one React application: \<^verbatim>\<open>part_001\<close> keeps its
  records in \<^verbatim>\<open>localStorage\<close>, \<^verbatim>\<open>part_000\<close> keeps them in a remote database and
  listens to its realtime channel. Both declare the same two interfaces; the remote
  variant spells the receivable's columns \<^verbatim>\<open>total_amount\<close>, \<^verbatim>\<open>paid_amount\<close> and
  \<^verbatim>\<open>due_date\<close>, the local one \<^verbatim>\<open>totalAmount\<close>, \<^verbatim>\<open>paidAmount\<close> and \<^verbatim>\<open>dueDate\<close>.
  One record type serves both, with the local spelling. The fields \<^verbatim>\<open>id\<close> and
  \<^verbatim>\<open>description\<close> carry a suffix (\<open>R\<close> for receivables, \<open>V\<close> for revenues).

  Amounts are whole currency units, modelled as \<open>int\<close>: the handlers read them with
  \<^verbatim>\<open>parseFloat\<close> from number inputs that have no \<^verbatim>\<open>step\<close> attribute, which admit
  whole numbers only. The handlers take a number of either sign. A due date is the
  string the source stores; the empty string is the missing due date, the value for
  which the test \<^verbatim>\<open>!a.due_date\<close> of the remote variant succeeds.
\<close>

record receivable =
  idR :: string
  descriptionR :: string
  totalAmount :: int
  paidAmount :: int
  dueDate :: string

record revenue =
  idV :: string
  descriptionV :: string
  amount :: int
  date :: string

text \<open>\<^verbatim>\<open>type EditingItem = { type: 'receivable' | 'revenue', data: Receivable | Revenue }\<close>\<close>

datatype editing_item = EditReceivable receivable | EditRevenue revenue

text \<open>The \<^verbatim>\<open>useState\<close> cells of the component (the active tab is left out).\<close>

record state =
  receivables :: "receivable list"
  revenues :: "revenue list"
  isReceivableModalOpen :: bool
  isRevenueModalOpen :: bool
  isPaymentModalOpen :: bool
  editingItem :: "editing_item option"
  currentReceivable :: "receivable option"

section \<open>Handlers of the local variant (\<^verbatim>\<open>part_001\<close>)\<close>

text \<open>
  \<^verbatim>\<open>handleAddReceivable\<close>: the identifier comes from \<^verbatim>\<open>crypto.randomUUID()\<close> and is an
  argument here; the other arguments are the values read from the form data.
\<close>

definition handleAddReceivable :: "string \<Rightarrow> string \<Rightarrow> int \<Rightarrow> string \<Rightarrow> state \<Rightarrow> state" where
  "handleAddReceivable newId description totalAmountV dueDateV st =
     st\<lparr>receivables := receivables st @
           [\<lparr>idR = newId, descriptionR = description, totalAmount = totalAmountV,
             paidAmount = 0, dueDate = dueDateV\<rparr>],
        isReceivableModalOpen := False\<rparr>"

definition handleAddRevenue :: "string \<Rightarrow> string \<Rightarrow> int \<Rightarrow> string \<Rightarrow> state \<Rightarrow> state" where
  "handleAddRevenue newId description amountV dateV st =
     st\<lparr>revenues := revenues st @
           [\<lparr>idV = newId, descriptionV = description, amount = amountV, date = dateV\<rparr>],
        isRevenueModalOpen := False\<rparr>"

text \<open>
  The \<^verbatim>\<open>BAYAR\<close> button of a row: \<^verbatim>\<open>setCurrentReceivable(r); setPaymentModalOpen(true)\<close>.
\<close>

definition openPaymentModal :: "receivable \<Rightarrow> state \<Rightarrow> state" where
  "openPaymentModal r st = st\<lparr>currentReceivable := Some r, isPaymentModalOpen := True\<rparr>"

text \<open>
  \<^verbatim>\<open>handleRecordPayment\<close>: returns at once when no receivable is current; otherwise maps
  the list, replacing the paid amount of every record with the current identifier by
  \<^verbatim>\<open>Math.min(r.totalAmount, r.paidAmount + paymentAmount)\<close>, read from the stored
  record \<^verbatim>\<open>r\<close>.
\<close>

definition handleRecordPayment :: "int \<Rightarrow> state \<Rightarrow> state" where
  "handleRecordPayment paymentAmount st =
     (case currentReceivable st of
        None \<Rightarrow> st
      | Some cur \<Rightarrow>
          st\<lparr>receivables :=
                map (\<lambda>r. if idR r = idR cur
                         then r\<lparr>paidAmount := min (totalAmount r) (paidAmount r + paymentAmount)\<rparr>
                         else r)
                    (receivables st),
             isPaymentModalOpen := False,
             currentReceivable := None\<rparr>)"

text \<open>
  The delete handlers ask \<^verbatim>\<open>window.confirm\<close> first; the answer is the Boolean argument.
\<close>

definition handleDeleteReceivable :: "bool \<Rightarrow> string \<Rightarrow> state \<Rightarrow> state" where
  "handleDeleteReceivable confirmed i st =
     (if confirmed then st\<lparr>receivables := filter (\<lambda>r. idR r \<noteq> i) (receivables st)\<rparr> else st)"

definition handleDeleteRevenue :: "bool \<Rightarrow> string \<Rightarrow> state \<Rightarrow> state" where
  "handleDeleteRevenue confirmed i st =
     (if confirmed then st\<lparr>revenues := filter (\<lambda>r. idV r \<noteq> i) (revenues st)\<rparr> else st)"

definition handleOpenEditModal :: "editing_item \<Rightarrow> state \<Rightarrow> state" where
  "handleOpenEditModal item st = st\<lparr>editingItem := Some item\<rparr>"

definition handleCloseEditModal :: "state \<Rightarrow> state" where
  "handleCloseEditModal st = st\<lparr>editingItem := None\<rparr>"

text \<open>
  \<^verbatim>\<open>handleUpdateItem\<close>: the updated record is the one captured when the edit modal was
  opened, with the three form values written over it; it replaces every stored record
  with its identifier. The first three arguments are \<^verbatim>\<open>description\<close>, the number field
  (\<^verbatim>\<open>totalAmount\<close> or \<^verbatim>\<open>amount\<close>) and the date field (\<^verbatim>\<open>dueDate\<close> or \<^verbatim>\<open>date\<close>) of
  the form shown for the item's type.
\<close>

definition handleUpdateItem :: "string \<Rightarrow> int \<Rightarrow> string \<Rightarrow> state \<Rightarrow> state" where
  "handleUpdateItem description numberV dateV st =
     (case editingItem st of
        None \<Rightarrow> st
      | Some (EditReceivable d) \<Rightarrow>
          (let updatedReceivable =
                 d\<lparr>descriptionR := description, totalAmount := numberV, dueDate := dateV\<rparr>
           in handleCloseEditModal
                (st\<lparr>receivables :=
                      map (\<lambda>r. if idR r = idR updatedReceivable then updatedReceivable else r)
                          (receivables st)\<rparr>))
      | Some (EditRevenue d) \<Rightarrow>
          (let updatedRevenue =
                 d\<lparr>descriptionV := description, amount := numberV, date := dateV\<rparr>
           in handleCloseEditModal
                (st\<lparr>revenues :=
                      map (\<lambda>r. if idV r = idV updatedRevenue then updatedRevenue else r)
                          (revenues st)\<rparr>)))"

section \<open>Handlers of the remote variant (\<^verbatim>\<open>part_000\<close>)\<close>

text \<open>
  The remote handlers await a call to the database client and apply its answer. The
  client is not part of the repository: each call is an argument of the handler, a
  function from the values the handler sends to the answer \<^verbatim>\<open>{ data, error }\<close>.
\<close>

datatype 'a response = Failed string | Returned 'a

text \<open>
  \<^verbatim>\<open>insert({ description, total_amount, paid_amount: 0, due_date, user_id })\<close>; on an
  error the handler only alerts, otherwise it appends the returned row.
\<close>

definition handleAddReceivableRemote ::
  "(string \<Rightarrow> int \<Rightarrow> int \<Rightarrow> string \<Rightarrow> receivable response) \<Rightarrow>
   string \<Rightarrow> int \<Rightarrow> string \<Rightarrow> state \<Rightarrow> state" where
  "handleAddReceivableRemote insertRow description totalAmountV dueDateV st =
     (case insertRow description totalAmountV 0 dueDateV of
        Failed msg \<Rightarrow> st
      | Returned data \<Rightarrow>
          st\<lparr>receivables := receivables st @ [data], isReceivableModalOpen := False\<rparr>)"

text \<open>
  \<^verbatim>\<open>update({ paid_amount: Math.min(currentReceivable.total_amount,
  currentReceivable.paid_amount + paymentAmount) }).eq('id', currentReceivable.id)\<close>:
  the amount is computed from the receivable captured when the modal was opened.
\<close>

definition handleRecordPaymentRemote ::
  "(string \<Rightarrow> int \<Rightarrow> receivable response) \<Rightarrow> int \<Rightarrow> state \<Rightarrow> state" where
  "handleRecordPaymentRemote updatePaid paymentAmount st =
     (case currentReceivable st of
        None \<Rightarrow> st
      | Some cur \<Rightarrow>
          (case updatePaid (idR cur)
                  (min (totalAmount cur) (paidAmount cur + paymentAmount)) of
             Failed msg \<Rightarrow> st
           | Returned data \<Rightarrow>
               st\<lparr>receivables :=
                     map (\<lambda>r. if idR r = idR data then data else r) (receivables st),
                  isPaymentModalOpen := False,
                  currentReceivable := None\<rparr>))"

text \<open>
  \<^verbatim>\<open>handleUpdateItem\<close> sends the three form values for the identifier of the item being
  edited and replaces the stored record by the returned row; the edit modal is closed
  whatever the answer.
\<close>

definition handleUpdateItemRemote ::
  "(string \<Rightarrow> string \<Rightarrow> int \<Rightarrow> string \<Rightarrow> receivable response) \<Rightarrow>
   (string \<Rightarrow> string \<Rightarrow> int \<Rightarrow> string \<Rightarrow> revenue response) \<Rightarrow>
   string \<Rightarrow> int \<Rightarrow> string \<Rightarrow> state \<Rightarrow> state" where
  "handleUpdateItemRemote updateReceivableRow updateRevenueRow description numberV dateV st =
     (case editingItem st of
        None \<Rightarrow> st
      | Some (EditReceivable d) \<Rightarrow>
          handleCloseEditModal
            (case updateReceivableRow (idR d) description numberV dateV of
               Failed msg \<Rightarrow> st
             | Returned data \<Rightarrow>
                 st\<lparr>receivables :=
                       map (\<lambda>r. if idR r = idR data then data else r) (receivables st)\<rparr>)
      | Some (EditRevenue d) \<Rightarrow>
          handleCloseEditModal
            (case updateRevenueRow (idV d) description numberV dateV of
               Failed msg \<Rightarrow> st
             | Returned data \<Rightarrow>
                 st\<lparr>revenues :=
                       map (\<lambda>r. if idV r = idV data then data else r) (revenues st)\<rparr>))"

subsection \<open>Realtime changes\<close>

text \<open>
  A change notification carries the event type, the new row and the old row, of which
  only the identifier is read. The channel is subscribed for the tables
  \<^verbatim>\<open>receivables\<close> and \<^verbatim>\<open>revenues\<close>; the table decides which list the change is
  merged into.
\<close>

datatype event_type = INSERT | UPDATE | DELETE

record 'r payload =
  eventType :: event_type
  new :: 'r
  old_id :: string

datatype change = OnReceivables "receivable payload" | OnRevenues "revenue payload"

definition mergeReceivables :: "receivable payload \<Rightarrow> receivable list \<Rightarrow> receivable list" where
  "mergeReceivables pl current =
     (case eventType pl of
        INSERT \<Rightarrow>
          if list_ex (\<lambda>r. idR r = idR (new pl)) current then current
          else current @ [new pl]
      | UPDATE \<Rightarrow> map (\<lambda>r. if idR r = idR (new pl) then new pl else r) current
      | DELETE \<Rightarrow> filter (\<lambda>r. idR r \<noteq> old_id pl) current)"

definition mergeRevenues :: "revenue payload \<Rightarrow> revenue list \<Rightarrow> revenue list" where
  "mergeRevenues pl current =
     (case eventType pl of
        INSERT \<Rightarrow>
          if list_ex (\<lambda>r. idV r = idV (new pl)) current then current
          else current @ [new pl]
      | UPDATE \<Rightarrow> map (\<lambda>r. if idV r = idV (new pl) then new pl else r) current
      | DELETE \<Rightarrow> filter (\<lambda>r. idV r \<noteq> old_id pl) current)"

definition handleChanges :: "change \<Rightarrow> state \<Rightarrow> state" where
  "handleChanges c st =
     (case c of
        OnReceivables pl \<Rightarrow> st\<lparr>receivables := mergeReceivables pl (receivables st)\<rparr>
      | OnRevenues pl \<Rightarrow> st\<lparr>revenues := mergeRevenues pl (revenues st)\<rparr>)"

section \<open>Derived state\<close>

record summary =
  totalS :: int
  remaining :: int

text \<open>
  \<^verbatim>\<open>receivablesSummary\<close>, the same \<^verbatim>\<open>reduce\<close> in both variants: a left fold from
  \<^verbatim>\<open>{ total: 0, remaining: 0 }\<close>.
\<close>

definition receivablesSummary :: "receivable list \<Rightarrow> summary" where
  "receivablesSummary rs =
     foldl (\<lambda>acc curr. acc\<lparr>totalS := totalS acc + totalAmount curr,
                             remaining := remaining acc + (totalAmount curr - paidAmount curr)\<rparr>)
           \<lparr>totalS = 0, remaining = 0\<rparr> rs"

subsection \<open>The projected order of the receivables\<close>

text \<open>
  The comparator returns a JavaScript number. \<^verbatim>\<open>new Date(s).getTime()\<close> is a number or
  \<^verbatim>\<open>NaN\<close>, and a difference with a \<^verbatim>\<open>NaN\<close> operand is \<^verbatim>\<open>NaN\<close>.
\<close>

datatype jsnum = NaN | Num int

fun jsMinus :: "jsnum \<Rightarrow> jsnum \<Rightarrow> jsnum" where
  "jsMinus (Num x) (Num y) = Num (x - y)"
| "jsMinus _ _ = NaN"

text \<open>
  The comparator of \<^verbatim>\<open>sortedReceivables\<close> in the local variant. The function
  \<open>getTime\<close> stands for \<^verbatim>\<open>s => new Date(s).getTime()\<close>, which belongs to the engine.
\<close>

definition compareReceivables ::
  "(string \<Rightarrow> jsnum) \<Rightarrow> receivable \<Rightarrow> receivable \<Rightarrow> jsnum" where
  "compareReceivables getTime a b =
     (let remainingA = totalAmount a - paidAmount a;
          remainingB = totalAmount b - paidAmount b
      in if remainingA > 0 \<and> remainingB \<le> 0 then Num (- 1)
         else if remainingA \<le> 0 \<and> remainingB > 0 then Num 1
         else jsMinus (getTime (dueDate a)) (getTime (dueDate b)))"

text \<open>
  The comparator of the remote variant has two more lines, for a falsy due date:
  \<^verbatim>\<open>if (!a.due_date) return 1; if (!b.due_date) return -1;\<close>
\<close>

definition compareReceivablesRemote ::
  "(string \<Rightarrow> jsnum) \<Rightarrow> receivable \<Rightarrow> receivable \<Rightarrow> jsnum" where
  "compareReceivablesRemote getTime a b =
     (let remainingA = totalAmount a - paidAmount a;
          remainingB = totalAmount b - paidAmount b
      in if remainingA > 0 \<and> remainingB \<le> 0 then Num (- 1)
         else if remainingA \<le> 0 \<and> remainingB > 0 then Num 1
         else if dueDate a = [] then Num 1
         else if dueDate b = [] then Num (- 1)
         else jsMinus (getTime (dueDate a)) (getTime (dueDate b)))"

text \<open>
  \<^verbatim>\<open>Array.prototype.sort\<close> belongs to the engine too. ECMAScript reads a \<^verbatim>\<open>NaN\<close>
  returned by the comparator as \<open>+0\<close> and requires the sort to be stable. When the
  comparator is consistent on the elements, the result is the one stable sorted
  arrangement, whatever the algorithm. When it is not, the order is left to the
  implementation, which may hand two elements to the comparator in either order. The
  model is a stable insertion sort with both conventions:
  \<open>EarlierFirst\<close> calls \<^verbatim>\<open>comparefn(earlier, later)\<close> and moves the earlier element
  behind the later one when the result is positive; \<open>LaterFirst\<close> calls
  \<^verbatim>\<open>comparefn(later, earlier)\<close> and moves the later element forward when the result is
  negative.
\<close>

datatype engine = EarlierFirst | LaterFirst

definition sortCompare :: "('a \<Rightarrow> 'a \<Rightarrow> jsnum) \<Rightarrow> 'a \<Rightarrow> 'a \<Rightarrow> int" where
  "sortCompare comparefn x y = (case comparefn x y of NaN \<Rightarrow> 0 | Num v \<Rightarrow> v)"

definition keepsOrder :: "engine \<Rightarrow> ('a \<Rightarrow> 'a \<Rightarrow> jsnum) \<Rightarrow> 'a \<Rightarrow> 'a \<Rightarrow> bool" where
  "keepsOrder e comparefn earlier later =
     (case e of
        EarlierFirst \<Rightarrow> sortCompare comparefn earlier later \<le> 0
      | LaterFirst \<Rightarrow> \<not> sortCompare comparefn later earlier < 0)"

fun insertSorted :: "engine \<Rightarrow> ('a \<Rightarrow> 'a \<Rightarrow> jsnum) \<Rightarrow> 'a \<Rightarrow> 'a list \<Rightarrow> 'a list" where
  "insertSorted e comparefn x [] = [x]"
| "insertSorted e comparefn x (y # ys) =
     (if keepsOrder e comparefn x y then x # y # ys
      else y # insertSorted e comparefn x ys)"

fun arraySort :: "engine \<Rightarrow> ('a \<Rightarrow> 'a \<Rightarrow> jsnum) \<Rightarrow> 'a list \<Rightarrow> 'a list" where
  "arraySort e comparefn [] = []"
| "arraySort e comparefn (x # xs) = insertSorted e comparefn x (arraySort e comparefn xs)"

definition sortedReceivables ::
  "engine \<Rightarrow> (string \<Rightarrow> jsnum) \<Rightarrow> receivable list \<Rightarrow> receivable list" where
  "sortedReceivables e getTime rs = arraySort e (compareReceivables getTime) rs"

definition sortedReceivablesRemote ::
  "engine \<Rightarrow> (string \<Rightarrow> jsnum) \<Rightarrow> receivable list \<Rightarrow> receivable list" where
  "sortedReceivablesRemote e getTime rs = arraySort e (compareReceivablesRemote getTime) rs"

subsection \<open>Date strings\<close>

text \<open>
  A concrete \<open>getTime\<close> for the examples: the milliseconds since the epoch of a string
  \<^verbatim>\<open>YYYY-MM-DD\<close> naming a calendar date (what an \<^verbatim>\<open><input type="date">\<close> and a database
  date column deliver), read as midnight UTC; every other string counts as unparseable.
\<close>

fun digitsValue :: "nat \<Rightarrow> string \<Rightarrow> nat option" where
  "digitsValue acc [] = Some acc"
| "digitsValue acc (c # cs) =
     (let n = (of_char c :: nat)
      in if 48 \<le> n \<and> n \<le> 57 then digitsValue (10 * acc + (n - 48)) cs else None)"

definition daysInMonth :: "nat \<Rightarrow> nat \<Rightarrow> nat" where
  "daysInMonth y m =
     (if m = 2 then (if y mod 4 = 0 \<and> (y mod 100 \<noteq> 0 \<or> y mod 400 = 0) then 29 else 28)
      else if m = 4 \<or> m = 6 \<or> m = 9 \<or> m = 11 then 30 else 31)"

definition daysFromCivil :: "int \<Rightarrow> int \<Rightarrow> int \<Rightarrow> int" where
  "daysFromCivil y m d =
     (let y1 = (if m \<le> 2 then y - 1 else y);
          era = y1 div 400;
          yoe = y1 - era * 400;
          doy = (153 * (if m > 2 then m - 3 else m + 9) + 2) div 5 + d - 1;
          doe = yoe * 365 + yoe div 4 - yoe div 100 + doy
      in era * 146097 + doe - 719468)"

definition getTimeISO :: "string \<Rightarrow> jsnum" where
  "getTimeISO s =
     (if length s = 10 \<and> s ! 4 = CHR ''-'' \<and> s ! 7 = CHR ''-'' then
        (case (digitsValue 0 (take 4 s), digitsValue 0 (take 2 (drop 5 s)),
               digitsValue 0 (drop 8 s)) of
           (Some y, Some m, Some d) \<Rightarrow>
             if 1 \<le> m \<and> m \<le> 12 \<and> 1 \<le> d \<and> d \<le> daysInMonth y m
             then Num (daysFromCivil (int y) (int m) (int d) * 86400000)
             else NaN
         | _ \<Rightarrow> NaN)
      else NaN)"

section \<open>Auxiliary definitions used to state the properties\<close>

text \<open>The stored record with a given identifier (the first one, should there be several).\<close>

definition lookupR :: "string \<Rightarrow> receivable list \<Rightarrow> receivable option" where
  "lookupR i rs = find (\<lambda>r. idR r = i) rs"

definition initialState :: state where
  "initialState =
     \<lparr>receivables = [], revenues = [], isReceivableModalOpen = False,
      isRevenueModalOpen = False, isPaymentModalOpen = False, editingItem = None,
      currentReceivable = None\<rparr>"

definition lookupV :: "string \<Rightarrow> revenue list \<Rightarrow> revenue option" where
  "lookupV i rs = find (\<lambda>r. idV r = i) rs"

text \<open>
  One payment through the interface: the \<^verbatim>\<open>BAYAR\<close> button of the row with the given
  identifier, then the submission of the payment form with the given amount. Without
  such a row there is nothing to click.
\<close>

definition recordPayment :: "string \<Rightarrow> int \<Rightarrow> state \<Rightarrow> state" where
  "recordPayment i p st =
     (case lookupR i (receivables st) of
        None \<Rightarrow> st
      | Some r \<Rightarrow> handleRecordPayment p (openPaymentModal r st))"

fun recordPayments :: "string \<Rightarrow> int list \<Rightarrow> state \<Rightarrow> state" where
  "recordPayments i [] st = st"
| "recordPayments i (p # ps) st = recordPayments i ps (recordPayment i p st)"

text \<open>The same steps in the remote variant, with the database call as an argument.\<close>

definition recordPaymentRemote ::
  "(string \<Rightarrow> int \<Rightarrow> receivable response) \<Rightarrow> string \<Rightarrow> int \<Rightarrow> state \<Rightarrow> state" where
  "recordPaymentRemote updatePaid i p st =
     (case lookupR i (receivables st) of
        None \<Rightarrow> st
      | Some r \<Rightarrow> handleRecordPaymentRemote updatePaid p (openPaymentModal r st))"

fun recordPaymentsRemote ::
  "(string \<Rightarrow> int \<Rightarrow> receivable response) \<Rightarrow> string \<Rightarrow> int list \<Rightarrow> state \<Rightarrow> state" where
  "recordPaymentsRemote updatePaid i [] st = st"
| "recordPaymentsRemote updatePaid i (p # ps) st =
     recordPaymentsRemote updatePaid i ps (recordPaymentRemote updatePaid i p st)"

text \<open>
  The words of the ordering rule. A receivable has a balance when its remaining amount
  is positive; its sort key is the partition (0 with a balance, 1 without), then whether
  the due date is missing, then the time of the due date. Keys are compared
  lexicographically.
\<close>

definition hasBalance :: "receivable \<Rightarrow> bool" where
  "hasBalance r = (totalAmount r - paidAmount r > 0)"

definition timeOf :: "(string \<Rightarrow> jsnum) \<Rightarrow> receivable \<Rightarrow> int" where
  "timeOf getTime r = (case getTime (dueDate r) of NaN \<Rightarrow> 0 | Num t \<Rightarrow> t)"

definition sortKey :: "(string \<Rightarrow> jsnum) \<Rightarrow> receivable \<Rightarrow> nat \<times> nat \<times> int" where
  "sortKey getTime r =
     (if hasBalance r then 0 else 1,
      if dueDate r = [] then (1, 0) else (0, timeOf getTime r))"

text \<open>Every due date that is present is one the engine can read.\<close>

definition datesParse :: "(string \<Rightarrow> jsnum) \<Rightarrow> receivable list \<Rightarrow> bool" where
  "datesParse getTime rs = list_all (\<lambda>r. dueDate r = [] \<or> getTime (dueDate r) \<noteq> NaN) rs"

text \<open>Concrete records and stores for the examples.\<close>

definition mkReceivable :: "string \<Rightarrow> int \<Rightarrow> int \<Rightarrow> string \<Rightarrow> receivable" where
  "mkReceivable i t p d =
     \<lparr>idR = i, descriptionR = ''item'', totalAmount = t, paidAmount = p, dueDate = d\<rparr>"

definition mkRevenue :: "string \<Rightarrow> int \<Rightarrow> string \<Rightarrow> revenue" where
  "mkRevenue i a d = \<lparr>idV = i, descriptionV = ''income'', amount = a, date = d\<rparr>"

definition storeOf :: "receivable list \<Rightarrow> state" where
  "storeOf rs = initialState\<lparr>receivables := rs\<rparr>"

text \<open>
  Databases for the examples. A table holding one row answers an update for the
  identifier of that row with the row so updated, and an update for another identifier
  with an error (\<^verbatim>\<open>single()\<close> finds no row). An insert is either stored under a
  new identifier or refused.
\<close>

definition rowUpdatePaid :: "receivable \<Rightarrow> string \<Rightarrow> int \<Rightarrow> receivable response" where
  "rowUpdatePaid row i v =
     (if i = idR row then Returned (row\<lparr>paidAmount := v\<rparr>) else Failed ''no rows'')"

definition rowUpdateFields ::
  "receivable \<Rightarrow> string \<Rightarrow> string \<Rightarrow> int \<Rightarrow> string \<Rightarrow> receivable response" where
  "rowUpdateFields row i d t dd =
     (if i = idR row
      then Returned (row\<lparr>descriptionR := d, totalAmount := t, dueDate := dd\<rparr>)
      else Failed ''no rows'')"

definition insertStoring ::
  "string \<Rightarrow> string \<Rightarrow> int \<Rightarrow> int \<Rightarrow> string \<Rightarrow> receivable response" where
  "insertStoring newId d t p dd =
     Returned \<lparr>idR = newId, descriptionR = d, totalAmount = t, paidAmount = p, dueDate = dd\<rparr>"

definition insertRefusing :: "string \<Rightarrow> int \<Rightarrow> int \<Rightarrow> string \<Rightarrow> receivable response" where
  "insertRefusing d t p dd = Failed ''refused''"

text \<open>
  The remote variant after three events: the store holds one receivable with total
  1000 and paid 800; the pay button of its row opens the payment modal; a realtime
  update of that row arrives with paid 900.
\<close>

definition staleCaptureState :: state where
  "staleCaptureState =
     handleChanges
       (OnReceivables \<lparr>eventType = UPDATE, new = mkReceivable ''a'' 1000 900 ''2024-01-01'',
                       old_id = []\<rparr>)
       (openPaymentModal (mkReceivable ''a'' 1000 800 ''2024-01-01'')
          (storeOf [mkReceivable ''a'' 1000 800 ''2024-01-01'']))"

text \<open>
  The local variant after three events: the store holds two receivables, the first
  with total 1000 and paid 300; the edit button of its row opens the edit modal; a
  payment of 100 on the same row is recorded while the edit modal is open.
\<close>

definition staleEditState :: state where
  "staleEditState =
     handleRecordPayment 100
       (openPaymentModal (mkReceivable ''a'' 1000 300 ''2024-01-01'')
          (handleOpenEditModal (EditReceivable (mkReceivable ''a'' 1000 300 ''2024-01-01''))
             (storeOf [mkReceivable ''a'' 1000 300 ''2024-01-01'',
                       mkReceivable ''b'' 500 0 ''2024-06-01''])))"

definition exampleReceivables :: "receivable list" where
  "exampleReceivables =
     [mkReceivable ''a'' 1000 1000 ''2024-01-01'', mkReceivable ''u'' 300 0 [],
      mkReceivable ''b'' 500 0 ''2024-06-01'', mkReceivable ''c'' 200 0 ''2024-03-01'']"

section \<open>Summary totals\<close>

lemma summary_fold:
  "foldl (\<lambda>acc curr. acc\<lparr>totalS := totalS acc + totalAmount curr,
                          remaining := remaining acc + (totalAmount curr - paidAmount curr)\<rparr>)
         a rs =
   \<lparr>totalS = totalS a + sum_list (map totalAmount rs),
    remaining = remaining a + sum_list (map (\<lambda>r. totalAmount r - paidAmount r) rs)\<rparr>"
  by (induction rs arbitrary: a) (simp_all add: algebra_simps)

text \<open>
  C8. The receivables summary is the sum of the total amounts and the sum of the
  remaining balances \<open>totalAmount - paidAmount\<close> over all records; for the two records
  with totals 1000 and 500 and paid amounts 200 and 500 it is 1500 and 800.
\<close>

theorem receivablesSummary_sums:
  "receivablesSummary rs =
     \<lparr>totalS = sum_list (map totalAmount rs),
      remaining = sum_list (map (\<lambda>r. totalAmount r - paidAmount r) rs)\<rparr>
   \<and> receivablesSummary
       [mkReceivable ''a'' 1000 200 ''2024-01-01'', mkReceivable ''b'' 500 500 ''2024-02-01'']
     = \<lparr>totalS = 1500, remaining = 800\<rparr>"
  by (simp add: receivablesSummary_def summary_fold mkReceivable_def)

section \<open>Recording payments\<close>

text \<open>
  The local handler reads the stored record: whatever receivable is current, a stored
  record with its identifier gets the paid amount \<open>min totalAmount (paidAmount + p)\<close>
  computed from its own fields.
\<close>

lemma handleRecordPayment_reads_stored:
  assumes "currentReceivable st = Some cur"
    and "k < length (receivables st)"
    and "idR (receivables st ! k) = idR cur"
  shows "receivables (handleRecordPayment p st) ! k
           = (receivables st ! k)
               \<lparr>paidAmount := min (totalAmount (receivables st ! k))
                                  (paidAmount (receivables st ! k) + p)\<rparr>"
  using assms by (simp add: handleRecordPayment_def)

lemma payment_example_clamps:
  "receivables
     (handleRecordPayment 10000
        (openPaymentModal (mkReceivable ''a'' 1000 800 ''2024-01-01'')
           (storeOf [mkReceivable ''a'' 1000 800 ''2024-01-01''])))
     = [mkReceivable ''a'' 1000 1000 ''2024-01-01'']
   \<and> receivables
       (handleRecordPaymentRemote (rowUpdatePaid (mkReceivable ''a'' 1000 800 ''2024-01-01''))
          10000
          (openPaymentModal (mkReceivable ''a'' 1000 800 ''2024-01-01'')
             (storeOf [mkReceivable ''a'' 1000 800 ''2024-01-01''])))
     = [mkReceivable ''a'' 1000 1000 ''2024-01-01'']"
  by (simp add: storeOf_def initialState_def mkReceivable_def handleRecordPayment_def
        handleRecordPaymentRemote_def openPaymentModal_def rowUpdatePaid_def)

text \<open>
  C1. A payment is to set the paid amount to \<open>min totalAmount (paidAmount + p)\<close>. The
  remote handler computes this amount from the receivable captured when the payment
  modal was opened, not from the stored record. In the state reached when a realtime
  update has raised the stored paid amount from 800 to 900 while the modal was open,
  the stored record has total 1000 and paid 900 and the captured one paid 800; a
  payment of 50, written by the database as asked, leaves 850 paid, where the minimum
  of 1000 and 900 + 50 is 950.
\<close>

theorem remote_payment_stale_capture:
  "receivables staleCaptureState = [mkReceivable ''a'' 1000 900 ''2024-01-01'']
   \<and> currentReceivable staleCaptureState = Some (mkReceivable ''a'' 1000 800 ''2024-01-01'')
   \<and> receivables
       (handleRecordPaymentRemote (rowUpdatePaid (mkReceivable ''a'' 1000 900 ''2024-01-01''))
          50 staleCaptureState)
     = [mkReceivable ''a'' 1000 850 ''2024-01-01'']
   \<and> min (totalAmount (mkReceivable ''a'' 1000 900 ''2024-01-01''))
         (paidAmount (mkReceivable ''a'' 1000 900 ''2024-01-01'') + 50)
     = 950"
  by (simp add: staleCaptureState_def storeOf_def initialState_def mkReceivable_def
        handleChanges_def mergeReceivables_def openPaymentModal_def
        handleRecordPaymentRemote_def rowUpdatePaid_def)

text \<open>The local handler in the same state stores 950.\<close>

lemma local_payment_same_state:
  "receivables (handleRecordPayment 50 staleCaptureState)
     = [mkReceivable ''a'' 1000 950 ''2024-01-01'']"
  by (simp add: staleCaptureState_def storeOf_def initialState_def mkReceivable_def
        handleChanges_def mergeReceivables_def openPaymentModal_def handleRecordPayment_def)

lemma lookupR_id: "lookupR i rs = Some r \<Longrightarrow> idR r = i"
  by (auto simp: lookupR_def find_Some_iff)

lemma lookupR_map_same:
  assumes "\<And>x. idR (f x) = idR x"
  shows "lookupR i (map (\<lambda>x. if idR x = i then f x else x) rs) = map_option f (lookupR i rs)"
  using assms by (induction rs) (auto simp: lookupR_def)

lemma recordPayment_lookup:
  assumes "lookupR i (receivables st) = Some r"
  shows "lookupR i (receivables (recordPayment i p st))
           = Some (r\<lparr>paidAmount := min (totalAmount r) (paidAmount r + p)\<rparr>)"
proof -
  have id: "idR r = i" using assms by (rule lookupR_id)
  have "receivables (recordPayment i p st)
          = map (\<lambda>x. if idR x = i
                     then x\<lparr>paidAmount := min (totalAmount x) (paidAmount x + p)\<rparr> else x)
                (receivables st)"
    using assms id
    by (simp add: recordPayment_def handleRecordPayment_def openPaymentModal_def)
  then show ?thesis
    using assms
    by (simp add: lookupR_map_same [where f = "\<lambda>x. x\<lparr>paidAmount := min (totalAmount x) (paidAmount x + p)\<rparr>"])
qed

lemma recordPayments_lookup:
  "lookupR i (receivables st) = Some r \<Longrightarrow>
   lookupR i (receivables (recordPayments i ps st))
     = Some (foldl (\<lambda>x p. x\<lparr>paidAmount := min (totalAmount x) (paidAmount x + p)\<rparr>) r ps)"
proof (induction ps arbitrary: st r)
  case Nil
  then show ?case by simp
next
  case (Cons p ps)
  from recordPayment_lookup [OF Cons.prems, of p]
  show ?case by (simp add: Cons.IH)
qed

lemma paid_fold_total:
  "totalAmount (foldl (\<lambda>x p. x\<lparr>paidAmount := min (totalAmount x) (paidAmount x + p)\<rparr>) r ps)
     = totalAmount r"
  by (induction ps arbitrary: r) simp_all

lemma paid_fold_bounded:
  "paidAmount r \<le> totalAmount r \<Longrightarrow>
   paidAmount (foldl (\<lambda>x p. x\<lparr>paidAmount := min (totalAmount x) (paidAmount x + p)\<rparr>) r ps)
     \<le> totalAmount r"
proof (induction ps arbitrary: r)
  case Nil
  then show ?case by simp
next
  case (Cons p ps)
  let ?r' = "r\<lparr>paidAmount := min (totalAmount r) (paidAmount r + p)\<rparr>"
  have "paidAmount ?r' \<le> totalAmount ?r'" by simp
  from Cons.IH [OF this] show ?case by simp
qed

lemma paid_fold_mono:
  "paidAmount r \<le> totalAmount r \<Longrightarrow> \<forall>p\<in>set ps. 0 \<le> p \<Longrightarrow>
   paidAmount r
     \<le> paidAmount (foldl (\<lambda>x p. x\<lparr>paidAmount := min (totalAmount x) (paidAmount x + p)\<rparr>) r ps)"
proof (induction ps arbitrary: r)
  case Nil
  then show ?case by simp
next
  case (Cons p ps)
  let ?r' = "r\<lparr>paidAmount := min (totalAmount r) (paidAmount r + p)\<rparr>"
  have "paidAmount r \<le> paidAmount ?r'" using Cons.prems by simp
  moreover have "paidAmount ?r' \<le> totalAmount ?r'" by simp
  ultimately show ?case using Cons.IH [of ?r'] Cons.prems(2) by fastforce
qed

lemma lookupR_map_replace:
  assumes "lookupR i rs = Some x" and "idR d = i"
  shows "lookupR i (map (\<lambda>y. if idR y = idR d then d else y) rs) = Some d"
  using assms by (induction rs) (auto simp: lookupR_def split: if_splits)

lemma recordPaymentRemote_lookup:
  assumes "lookupR i (receivables st) = Some x"
    and "\<forall>v. updatePaid i v = Returned (x\<lparr>paidAmount := v\<rparr>)"
  shows "lookupR i (receivables (recordPaymentRemote updatePaid i p st))
           = Some (x\<lparr>paidAmount := min (totalAmount x) (paidAmount x + p)\<rparr>)"
proof -
  let ?d = "x\<lparr>paidAmount := min (totalAmount x) (paidAmount x + p)\<rparr>"
  have id: "idR x = i" using assms(1) by (rule lookupR_id)
  have "receivables (recordPaymentRemote updatePaid i p st)
          = map (\<lambda>y. if idR y = idR ?d then ?d else y) (receivables st)"
    using assms id
    by (simp add: recordPaymentRemote_def handleRecordPaymentRemote_def openPaymentModal_def)
  then show ?thesis
    using lookupR_map_replace [OF assms(1), of ?d] id by simp
qed

lemma recordPaymentsRemote_lookup:
  "lookupR i (receivables st) = Some x \<Longrightarrow>
   \<forall>v. updatePaid i v = Returned (x\<lparr>paidAmount := v\<rparr>) \<Longrightarrow>
   lookupR i (receivables (recordPaymentsRemote updatePaid i ps st))
     = Some (foldl (\<lambda>x p. x\<lparr>paidAmount := min (totalAmount x) (paidAmount x + p)\<rparr>) x ps)"
proof (induction ps arbitrary: st x)
  case Nil
  then show ?case by simp
next
  case (Cons p ps)
  let ?x' = "x\<lparr>paidAmount := min (totalAmount x) (paidAmount x + p)\<rparr>"
  have step: "lookupR i (receivables (recordPaymentRemote updatePaid i p st)) = Some ?x'"
    by (rule recordPaymentRemote_lookup [where updatePaid = updatePaid, OF Cons.prems])
  have honest: "\<forall>v. updatePaid i v = Returned (?x'\<lparr>paidAmount := v\<rparr>)"
    using Cons.prems(2) by simp
  from Cons.IH [OF step honest] show ?case by simp
qed

lemma paid_fold_prefixes:
  assumes "paidAmount r \<le> totalAmount r"
    and "\<forall>p\<in>set ps. 0 \<le> p"
    and "j \<le> k"
  shows "paidAmount
           (foldl (\<lambda>x p. x\<lparr>paidAmount := min (totalAmount x) (paidAmount x + p)\<rparr>) r (take j ps))
         \<le> paidAmount
             (foldl (\<lambda>x p. x\<lparr>paidAmount := min (totalAmount x) (paidAmount x + p)\<rparr>) r
                (take k ps))"
proof -
  let ?pay = "\<lambda>x p. x\<lparr>paidAmount := min (totalAmount x) (paidAmount x + p)\<rparr>"
  let ?a = "foldl ?pay r (take j ps)"
  have split: "take k ps = take j ps @ drop j (take k ps)"
    using assms(3) by (metis append_take_drop_id min.absorb1 take_take)
  have b: "foldl ?pay r (take k ps) = foldl ?pay ?a (drop j (take k ps))"
    by (subst split) simp
  have a_ok: "paidAmount ?a \<le> totalAmount ?a"
    using paid_fold_bounded [OF assms(1)] by (simp add: paid_fold_total)
  have nonneg: "\<forall>p\<in>set (drop j (take k ps)). 0 \<le> p"
    using assms(2) by (meson in_set_dropD in_set_takeD)
  show ?thesis
    unfolding b by (rule paid_fold_mono [OF a_ok nonneg])
qed

text \<open>
  C3 (amended). Take a stored receivable with \<open>paidAmount \<le> totalAmount\<close> and a finite
  sequence of payments on it whose amounts are not negative, each made through the pay
  button of its stored row and submitted before any other change arrives. In the local
  variant the paid amount after any prefix of the sequence is at most the total amount
  and at least the paid amount after any shorter prefix, and the total amount stays
  what it was. In the remote variant the same holds when the database answers every
  update of the paid amount of that row with the row carrying the requested amount.
\<close>

theorem payments_bounded_monotone:
  assumes "lookupR i (receivables st) = Some r"
    and "paidAmount r \<le> totalAmount r"
    and "\<forall>p\<in>set ps. 0 \<le> p"
    and "j \<le> k" and "k \<le> length ps"
  shows "(\<exists>a b. lookupR i (receivables (recordPayments i (take j ps) st)) = Some a
              \<and> lookupR i (receivables (recordPayments i (take k ps) st)) = Some b
              \<and> paidAmount a \<le> paidAmount b
              \<and> paidAmount b \<le> totalAmount b
              \<and> totalAmount b = totalAmount r)
         \<and> (\<forall>updatePaid.
               (\<forall>v. updatePaid i v = Returned (r\<lparr>paidAmount := v\<rparr>)) \<longrightarrow>
               (\<exists>a b. lookupR i (receivables (recordPaymentsRemote updatePaid i (take j ps) st))
                         = Some a
                     \<and> lookupR i (receivables (recordPaymentsRemote updatePaid i (take k ps) st))
                         = Some b
                     \<and> paidAmount a \<le> paidAmount b
                     \<and> paidAmount b \<le> totalAmount b
                     \<and> totalAmount b = totalAmount r))"
proof -
  let ?pay = "\<lambda>x p. x\<lparr>paidAmount := min (totalAmount x) (paidAmount x + p)\<rparr>"
  let ?a = "foldl ?pay r (take j ps)"
  let ?b = "foldl ?pay r (take k ps)"
  have mono: "paidAmount ?a \<le> paidAmount ?b"
    by (rule paid_fold_prefixes [OF assms(2) assms(3) assms(4)])
  have bounded: "paidAmount ?b \<le> totalAmount ?b"
    using paid_fold_bounded [OF assms(2)] by (simp add: paid_fold_total)
  have total: "totalAmount ?b = totalAmount r"
    by (rule paid_fold_total)
  have loc: "\<exists>a b. lookupR i (receivables (recordPayments i (take j ps) st)) = Some a
              \<and> lookupR i (receivables (recordPayments i (take k ps) st)) = Some b
              \<and> paidAmount a \<le> paidAmount b
              \<and> paidAmount b \<le> totalAmount b
              \<and> totalAmount b = totalAmount r"
    using recordPayments_lookup [OF assms(1)] mono bounded total by simp
  have rem: "\<exists>a b. lookupR i (receivables (recordPaymentsRemote updatePaid i (take j ps) st))
                      = Some a
                  \<and> lookupR i (receivables (recordPaymentsRemote updatePaid i (take k ps) st))
                      = Some b
                  \<and> paidAmount a \<le> paidAmount b
                  \<and> paidAmount b \<le> totalAmount b
                  \<and> totalAmount b = totalAmount r"
    if honest: "\<forall>v. updatePaid i v = Returned (r\<lparr>paidAmount := v\<rparr>)" for updatePaid
    using recordPaymentsRemote_lookup [where updatePaid = updatePaid, OF assms(1) honest]
          mono bounded total
    by simp
  show ?thesis
    using loc rem by blast
qed

theorem payments_bounded_monotone_witness:
  "lookupR ''a'' (receivables (storeOf [mkReceivable ''a'' 1000 800 ''2024-01-01'']))
     = Some (mkReceivable ''a'' 1000 800 ''2024-01-01'')
   \<and> lookupR ''a''
        (receivables
           (recordPayments ''a'' (take 1 [50, 0, 400])
              (storeOf [mkReceivable ''a'' 1000 800 ''2024-01-01''])))
     = Some (mkReceivable ''a'' 1000 850 ''2024-01-01'')
   \<and> lookupR ''a''
        (receivables
           (recordPayments ''a'' (take 3 [50, 0, 400])
              (storeOf [mkReceivable ''a'' 1000 800 ''2024-01-01''])))
     = Some (mkReceivable ''a'' 1000 1000 ''2024-01-01'')
   \<and> rowUpdatePaid (mkReceivable ''a'' 1000 800 ''2024-01-01'') ''a'' 850
     = Returned (mkReceivable ''a'' 1000 850 ''2024-01-01'')
   \<and> lookupR ''a''
        (receivables
           (recordPaymentsRemote (rowUpdatePaid (mkReceivable ''a'' 1000 800 ''2024-01-01''))
              ''a'' (take 1 [50, 0, 400])
              (storeOf [mkReceivable ''a'' 1000 800 ''2024-01-01''])))
     = Some (mkReceivable ''a'' 1000 850 ''2024-01-01'')
   \<and> lookupR ''a''
        (receivables
           (recordPaymentsRemote (rowUpdatePaid (mkReceivable ''a'' 1000 800 ''2024-01-01''))
              ''a'' (take 3 [50, 0, 400])
              (storeOf [mkReceivable ''a'' 1000 800 ''2024-01-01''])))
     = Some (mkReceivable ''a'' 1000 1000 ''2024-01-01'')"
  using payments_bounded_monotone
          [of "''a''" "storeOf [mkReceivable ''a'' 1000 800 ''2024-01-01'']"
              "mkReceivable ''a'' 1000 800 ''2024-01-01''" "[50, 0, 400]" 1 3]
  by (simp add: storeOf_def initialState_def mkReceivable_def lookupR_def recordPayment_def
        handleRecordPayment_def openPaymentModal_def recordPaymentRemote_def
        handleRecordPaymentRemote_def rowUpdatePaid_def)

text \<open>
  The handler takes a negative amount as it takes any other: from total 1000 and paid
  800, a payment of \<open>-5\<close> leaves 795 paid.
\<close>

theorem negative_payment_counterexample:
  "paidAmount (mkReceivable ''a'' 1000 800 ''2024-01-01'')
     \<le> totalAmount (mkReceivable ''a'' 1000 800 ''2024-01-01'')
   \<and> receivables
       (handleRecordPayment (- 5)
          (openPaymentModal (mkReceivable ''a'' 1000 800 ''2024-01-01'')
             (storeOf [mkReceivable ''a'' 1000 800 ''2024-01-01''])))
     = [mkReceivable ''a'' 1000 795 ''2024-01-01'']
   \<and> paidAmount (mkReceivable ''a'' 1000 795 ''2024-01-01'')
     < paidAmount (mkReceivable ''a'' 1000 800 ''2024-01-01'')"
  by (simp add: storeOf_def initialState_def mkReceivable_def handleRecordPayment_def
        openPaymentModal_def)

section \<open>Adding a receivable\<close>

text \<open>
  C2 (amended). Adding a receivable checks nothing: for every input, a negative total
  amount or an empty description or due date included, the local handler appends
  exactly one record with the given description, total amount and due date and paid
  amount 0, and leaves the receivables already stored and the revenues unchanged. The
  remote handler leaves the state unchanged when the database answers the insert of
  these values, with paid amount 0, with an error, and otherwise appends the row the
  database returns and leaves the revenues unchanged.
\<close>

theorem addReceivable_unvalidated:
  "receivables (handleAddReceivable newId d n dd st)
     = receivables st @ [\<lparr>idR = newId, descriptionR = d, totalAmount = n, paidAmount = 0,
                           dueDate = dd\<rparr>]
   \<and> revenues (handleAddReceivable newId d n dd st) = revenues st
   \<and> (\<forall>msg. insertRow d n 0 dd = Failed msg \<longrightarrow>
         handleAddReceivableRemote insertRow d n dd st = st)
   \<and> (\<forall>data. insertRow d n 0 dd = Returned data \<longrightarrow>
         receivables (handleAddReceivableRemote insertRow d n dd st) = receivables st @ [data]
         \<and> revenues (handleAddReceivableRemote insertRow d n dd st) = revenues st)"
  by (simp add: handleAddReceivable_def handleAddReceivableRemote_def)

theorem addReceivable_unvalidated_witness:
  "insertRefusing ''item'' (- 5) 0 ''2024-01-01'' = Failed ''refused''
   \<and> handleAddReceivableRemote insertRefusing ''item'' (- 5) ''2024-01-01'' initialState
     = initialState
   \<and> insertStoring ''n1'' ''item'' (- 5) 0 ''2024-01-01''
     = Returned (mkReceivable ''n1'' (- 5) 0 ''2024-01-01'')
   \<and> receivables
       (handleAddReceivableRemote (insertStoring ''n1'') ''item'' (- 5) ''2024-01-01''
          initialState)
     = [mkReceivable ''n1'' (- 5) 0 ''2024-01-01'']
   \<and> receivables (handleAddReceivable ''n1'' [] (- 5) [] initialState)
     = [\<lparr>idR = ''n1'', descriptionR = [], totalAmount = - 5, paidAmount = 0, dueDate = []\<rparr>]"
  using addReceivable_unvalidated
          [of "''n1''" "[]" "- 5" "[]" initialState insertRefusing]
        addReceivable_unvalidated
          [of _ "''item''" "- 5" "''2024-01-01''" initialState insertRefusing]
        addReceivable_unvalidated
          [of _ "''item''" "- 5" "''2024-01-01''" initialState "insertStoring ''n1''"]
  by (simp add: insertRefusing_def insertStoring_def mkReceivable_def initialState_def)

text \<open>
  The handler on a total amount of \<open>-5\<close>: the record is stored.
\<close>

theorem handleAddReceivable_negative_counterexample:
  "receivables (handleAddReceivable ''n1'' ''item'' (- 5) ''2024-01-01'' initialState)
     = [mkReceivable ''n1'' (- 5) 0 ''2024-01-01'']
   \<and> receivables (handleAddReceivable ''n1'' ''item'' (- 5) ''2024-01-01'' initialState)
     \<noteq> receivables initialState"
  by (simp add: handleAddReceivable_def initialState_def mkReceivable_def)

section \<open>Realtime changes and deletion\<close>

lemma list_ex_append_new: "list_ex P (xs @ [x]) = (list_ex P xs \<or> P x)"
  by (auto simp: list_ex_iff)

text \<open>
  C4. An insert notification for a record whose identifier is already stored changes
  nothing, and applying the same insert notification twice gives the state that
  applying it once gives, for receivables and for revenues.
\<close>

theorem insert_idempotent:
  "(list_ex (\<lambda>x. idR x = idR r) (receivables st) \<longrightarrow>
      handleChanges (OnReceivables \<lparr>eventType = INSERT, new = r, old_id = o1\<rparr>) st = st)
   \<and> (list_ex (\<lambda>x. idV x = idV v) (revenues st) \<longrightarrow>
      handleChanges (OnRevenues \<lparr>eventType = INSERT, new = v, old_id = o2\<rparr>) st = st)
   \<and> handleChanges (OnReceivables \<lparr>eventType = INSERT, new = r, old_id = o1\<rparr>)
        (handleChanges (OnReceivables \<lparr>eventType = INSERT, new = r, old_id = o1\<rparr>) st)
      = handleChanges (OnReceivables \<lparr>eventType = INSERT, new = r, old_id = o1\<rparr>) st
   \<and> handleChanges (OnRevenues \<lparr>eventType = INSERT, new = v, old_id = o2\<rparr>)
        (handleChanges (OnRevenues \<lparr>eventType = INSERT, new = v, old_id = o2\<rparr>) st)
      = handleChanges (OnRevenues \<lparr>eventType = INSERT, new = v, old_id = o2\<rparr>) st"
  by (simp add: handleChanges_def mergeReceivables_def mergeRevenues_def list_ex_append_new)

theorem insert_idempotent_witness:
  "list_ex (\<lambda>x. idR x = idR (mkReceivable ''a'' 1000 0 ''2024-01-01''))
     (receivables (storeOf [mkReceivable ''a'' 1000 0 ''2024-01-01'']))
   \<and> handleChanges
       (OnReceivables \<lparr>eventType = INSERT, new = mkReceivable ''a'' 1000 0 ''2024-01-01'',
                       old_id = []\<rparr>)
       (storeOf [mkReceivable ''a'' 1000 0 ''2024-01-01''])
     = storeOf [mkReceivable ''a'' 1000 0 ''2024-01-01'']
   \<and> list_ex (\<lambda>x. idV x = idV (mkRevenue ''v'' 70 ''2024-01-01''))
       (revenues (initialState\<lparr>revenues := [mkRevenue ''v'' 70 ''2024-01-01'']\<rparr>))
   \<and> handleChanges
       (OnRevenues \<lparr>eventType = INSERT, new = mkRevenue ''v'' 70 ''2024-01-01'', old_id = []\<rparr>)
       (initialState\<lparr>revenues := [mkRevenue ''v'' 70 ''2024-01-01'']\<rparr>)
     = initialState\<lparr>revenues := [mkRevenue ''v'' 70 ''2024-01-01'']\<rparr>"
  using insert_idempotent
          [of "mkReceivable ''a'' 1000 0 ''2024-01-01''"
              "storeOf [mkReceivable ''a'' 1000 0 ''2024-01-01'']" "[]"]
        insert_idempotent
          [of _ "initialState\<lparr>revenues := [mkRevenue ''v'' 70 ''2024-01-01'']\<rparr>" _
              "mkRevenue ''v'' 70 ''2024-01-01''" "[]"]
  by (simp add: storeOf_def initialState_def)

lemma filter_absent: "i \<notin> f ` set xs \<Longrightarrow> filter (\<lambda>x. f x \<noteq> i) xs = xs"
  by (induction xs) auto

text \<open>
  C5. Deleting an identifier that no stored record has leaves the state unchanged,
  through \<^verbatim>\<open>handleDeleteReceivable\<close>, \<^verbatim>\<open>handleDeleteRevenue\<close> and a delete
  notification alike; in particular a second delete of the same identifier changes
  nothing. The functions return a state in every case: there is no error to raise.
\<close>

theorem delete_idempotent:
  "(i \<notin> idR ` set (receivables st) \<longrightarrow>
      handleDeleteReceivable c i st = st
      \<and> handleChanges (OnReceivables \<lparr>eventType = DELETE, new = r, old_id = i\<rparr>) st = st)
   \<and> (i \<notin> idV ` set (revenues st) \<longrightarrow>
      handleDeleteRevenue c i st = st
      \<and> handleChanges (OnRevenues \<lparr>eventType = DELETE, new = v, old_id = i\<rparr>) st = st)
   \<and> handleDeleteReceivable c' i (handleDeleteReceivable True i st)
        = handleDeleteReceivable True i st
   \<and> handleDeleteRevenue c' i (handleDeleteRevenue True i st) = handleDeleteRevenue True i st
   \<and> handleChanges (OnReceivables \<lparr>eventType = DELETE, new = r, old_id = i\<rparr>)
        (handleChanges (OnReceivables \<lparr>eventType = DELETE, new = r, old_id = i\<rparr>) st)
      = handleChanges (OnReceivables \<lparr>eventType = DELETE, new = r, old_id = i\<rparr>) st
   \<and> handleChanges (OnRevenues \<lparr>eventType = DELETE, new = v, old_id = i\<rparr>)
        (handleChanges (OnRevenues \<lparr>eventType = DELETE, new = v, old_id = i\<rparr>) st)
      = handleChanges (OnRevenues \<lparr>eventType = DELETE, new = v, old_id = i\<rparr>) st"
  by (simp add: handleChanges_def mergeReceivables_def mergeRevenues_def
        handleDeleteReceivable_def handleDeleteRevenue_def filter_absent)

theorem delete_idempotent_witness:
  "''z'' \<notin> idR ` set (receivables (storeOf [mkReceivable ''a'' 1000 0 ''2024-01-01'']))
   \<and> handleDeleteReceivable True ''z'' (storeOf [mkReceivable ''a'' 1000 0 ''2024-01-01''])
     = storeOf [mkReceivable ''a'' 1000 0 ''2024-01-01'']
   \<and> ''z'' \<notin> idV ` set (revenues (initialState\<lparr>revenues := [mkRevenue ''v'' 70 ''2024-01-01'']\<rparr>))
   \<and> handleDeleteRevenue True ''z'' (initialState\<lparr>revenues := [mkRevenue ''v'' 70 ''2024-01-01'']\<rparr>)
     = initialState\<lparr>revenues := [mkRevenue ''v'' 70 ''2024-01-01'']\<rparr>
   \<and> handleDeleteReceivable True ''a''
       (handleDeleteReceivable True ''a'' (storeOf [mkReceivable ''a'' 1000 0 ''2024-01-01'']))
     = storeOf []"
  using delete_idempotent
          [of "''z''" "storeOf [mkReceivable ''a'' 1000 0 ''2024-01-01'']" True]
        delete_idempotent
          [of "''z''" "initialState\<lparr>revenues := [mkRevenue ''v'' 70 ''2024-01-01'']\<rparr>" True]
        delete_idempotent
          [of "''a''" "storeOf [mkReceivable ''a'' 1000 0 ''2024-01-01'']" True _ _ True]
  by (simp add: storeOf_def initialState_def mkReceivable_def mkRevenue_def
        handleDeleteReceivable_def)

lemma map_replace_absent:
  "i \<notin> f ` set xs \<Longrightarrow> map (\<lambda>x. if f x = i then y else x) xs = xs"
  by (induction xs) auto

text \<open>
  C9. An update notification whose record identifier matches no stored record leaves
  the state unchanged: nothing is inserted and nothing is modified, for receivables and
  for revenues.
\<close>

theorem update_unknown_id_noop:
  "(idR r \<notin> idR ` set (receivables st) \<longrightarrow>
      handleChanges (OnReceivables \<lparr>eventType = UPDATE, new = r, old_id = o1\<rparr>) st = st)
   \<and> (idV v \<notin> idV ` set (revenues st) \<longrightarrow>
      handleChanges (OnRevenues \<lparr>eventType = UPDATE, new = v, old_id = o2\<rparr>) st = st)"
  by (simp add: handleChanges_def mergeReceivables_def mergeRevenues_def map_replace_absent)

theorem update_unknown_id_noop_witness:
  "idR (mkReceivable ''z'' 5 0 ''2024-05-05'')
     \<notin> idR ` set (receivables (storeOf [mkReceivable ''a'' 1000 0 ''2024-01-01'']))
   \<and> handleChanges
       (OnReceivables \<lparr>eventType = UPDATE, new = mkReceivable ''z'' 5 0 ''2024-05-05'',
                       old_id = []\<rparr>)
       (storeOf [mkReceivable ''a'' 1000 0 ''2024-01-01''])
     = storeOf [mkReceivable ''a'' 1000 0 ''2024-01-01'']
   \<and> idV (mkRevenue ''w'' 5 ''2024-05-05'')
     \<notin> idV ` set (revenues (initialState\<lparr>revenues := [mkRevenue ''v'' 70 ''2024-01-01'']\<rparr>))
   \<and> handleChanges
       (OnRevenues \<lparr>eventType = UPDATE, new = mkRevenue ''w'' 5 ''2024-05-05'', old_id = []\<rparr>)
       (initialState\<lparr>revenues := [mkRevenue ''v'' 70 ''2024-01-01'']\<rparr>)
     = initialState\<lparr>revenues := [mkRevenue ''v'' 70 ''2024-01-01'']\<rparr>"
  using update_unknown_id_noop
          [of "mkReceivable ''z'' 5 0 ''2024-05-05''"
              "storeOf [mkReceivable ''a'' 1000 0 ''2024-01-01'']" "[]"]
        update_unknown_id_noop
          [of _ "initialState\<lparr>revenues := [mkRevenue ''v'' 70 ''2024-01-01'']\<rparr>" _
              "mkRevenue ''w'' 5 ''2024-05-05''" "[]"]
  by (simp add: storeOf_def initialState_def mkReceivable_def mkRevenue_def)

lemma lookupR_list_ex: "lookupR i rs = Some x \<Longrightarrow> list_ex (\<lambda>y. idR y = i) rs"
  by (auto simp: lookupR_def find_Some_iff list_ex_iff)

lemma lookupV_list_ex: "lookupV i rs = Some x \<Longrightarrow> list_ex (\<lambda>y. idV y = i) rs"
  by (auto simp: lookupV_def find_Some_iff list_ex_iff)

text \<open>
  C10. When a record with identifier \<open>x\<close> is stored and an insert notification carries
  a record with identifier \<open>x\<close>, the list is left as it was and the record found under
  \<open>x\<close> is still the stored one, whatever the other fields of the incoming record are.
\<close>

theorem insert_existing_keeps_stored:
  "(lookupR (idR r) (receivables st) = Some kept \<longrightarrow>
      receivables (handleChanges (OnReceivables \<lparr>eventType = INSERT, new = r, old_id = o1\<rparr>) st)
        = receivables st
      \<and> lookupR (idR r)
          (receivables
             (handleChanges (OnReceivables \<lparr>eventType = INSERT, new = r, old_id = o1\<rparr>) st))
        = Some kept)
   \<and> (lookupV (idV v) (revenues st) = Some keptV \<longrightarrow>
      revenues (handleChanges (OnRevenues \<lparr>eventType = INSERT, new = v, old_id = o2\<rparr>) st)
        = revenues st
      \<and> lookupV (idV v)
          (revenues (handleChanges (OnRevenues \<lparr>eventType = INSERT, new = v, old_id = o2\<rparr>) st))
        = Some keptV)"
  by (auto simp: handleChanges_def mergeReceivables_def mergeRevenues_def
        dest: lookupR_list_ex lookupV_list_ex)

theorem insert_existing_keeps_stored_witness:
  "lookupR (idR (mkReceivable ''a'' 7 7 ''2030-12-31''))
     (receivables (storeOf [mkReceivable ''a'' 1000 0 ''2024-01-01'']))
     = Some (mkReceivable ''a'' 1000 0 ''2024-01-01'')
   \<and> receivables
       (handleChanges
          (OnReceivables \<lparr>eventType = INSERT, new = mkReceivable ''a'' 7 7 ''2030-12-31'',
                          old_id = []\<rparr>)
          (storeOf [mkReceivable ''a'' 1000 0 ''2024-01-01'']))
     = [mkReceivable ''a'' 1000 0 ''2024-01-01'']
   \<and> lookupV (idV (mkRevenue ''v'' 1 ''2030-12-31''))
       (revenues (initialState\<lparr>revenues := [mkRevenue ''v'' 70 ''2024-01-01'']\<rparr>))
     = Some (mkRevenue ''v'' 70 ''2024-01-01'')
   \<and> revenues
       (handleChanges
          (OnRevenues \<lparr>eventType = INSERT, new = mkRevenue ''v'' 1 ''2030-12-31'', old_id = []\<rparr>)
          (initialState\<lparr>revenues := [mkRevenue ''v'' 70 ''2024-01-01'']\<rparr>))
     = [mkRevenue ''v'' 70 ''2024-01-01'']"
  using insert_existing_keeps_stored
          [of "mkReceivable ''a'' 7 7 ''2030-12-31''"
              "storeOf [mkReceivable ''a'' 1000 0 ''2024-01-01'']"
              "mkReceivable ''a'' 1000 0 ''2024-01-01''" "[]"]
        insert_existing_keeps_stored
          [of _ "initialState\<lparr>revenues := [mkRevenue ''v'' 70 ''2024-01-01'']\<rparr>" _ _
              "mkRevenue ''v'' 1 ''2030-12-31''" "mkRevenue ''v'' 70 ''2024-01-01''" "[]"]
  by (simp add: storeOf_def initialState_def mkReceivable_def mkRevenue_def lookupR_def
        lookupV_def)

section \<open>Editing a receivable\<close>

text \<open>
  C6. Editing a receivable is to replace its description, total amount and due date
  and to leave its paid amount unchanged. The local handler writes back the record
  captured when the edit modal was opened, with the three form values written over it.
  In the state reached when a payment of 100 on the same row has been recorded while
  the edit modal was open, the stored record has paid 400 and the captured one paid
  300; the update leaves 300 paid.
\<close>

theorem edit_writes_back_stale_capture:
  "receivables staleEditState
     = [mkReceivable ''a'' 1000 400 ''2024-01-01'', mkReceivable ''b'' 500 0 ''2024-06-01'']
   \<and> editingItem staleEditState
     = Some (EditReceivable (mkReceivable ''a'' 1000 300 ''2024-01-01''))
   \<and> receivables (handleUpdateItem ''item'' 1200 ''2024-02-02'' staleEditState)
     = [mkReceivable ''a'' 1200 300 ''2024-02-02'', mkReceivable ''b'' 500 0 ''2024-06-01'']"
  by (simp add: staleEditState_def storeOf_def initialState_def mkReceivable_def
        handleOpenEditModal_def handleCloseEditModal_def openPaymentModal_def
        handleRecordPayment_def handleUpdateItem_def)

text \<open>
  The remote handler in the same state sends the three form values only, and stores
  the row the database returns: the paid amount stays 400.
\<close>

lemma remote_edit_same_state:
  "receivables
     (handleUpdateItemRemote (rowUpdateFields (mkReceivable ''a'' 1000 400 ''2024-01-01''))
        updateRevenueRow ''item'' 1200 ''2024-02-02'' staleEditState)
     = [mkReceivable ''a'' 1200 400 ''2024-02-02'', mkReceivable ''b'' 500 0 ''2024-06-01'']"
  by (simp add: staleEditState_def storeOf_def initialState_def mkReceivable_def
        handleOpenEditModal_def handleCloseEditModal_def openPaymentModal_def
        handleRecordPayment_def handleUpdateItemRemote_def rowUpdateFields_def)

text \<open>
  When the record captured by the edit modal is the stored one and the identifiers of
  the store are distinct, the update replaces the three fields of that record and
  nothing else.
\<close>

lemma map_replace_own:
  assumes "r \<in> set rs" and "distinct (map idR rs)"
  shows "map (\<lambda>x. if idR x = idR r then g r else x) rs
           = map (\<lambda>x. if idR x = idR r then g x else x) rs"
proof (rule map_cong [OF refl])
  fix x assume "x \<in> set rs"
  with assms have "idR x = idR r \<Longrightarrow> x = r"
    by (meson distinct_map inj_onD)
  then show "(if idR x = idR r then g r else x) = (if idR x = idR r then g x else x)"
    by auto
qed

lemma updateReceivable_frame_when_current:
  assumes "r \<in> set (receivables st)" and "distinct (map idR (receivables st))"
  shows "(let st' = handleUpdateItem d t dd (handleOpenEditModal (EditReceivable r) st);
              changed = map (\<lambda>x. if idR x = idR r
                                  then x\<lparr>descriptionR := d, totalAmount := t, dueDate := dd\<rparr>
                                  else x)
                            (receivables st)
          in receivables st' = changed
           \<and> map paidAmount (receivables st') = map paidAmount (receivables st)
           \<and> map idR (receivables st') = map idR (receivables st)
           \<and> (\<forall>k < length (receivables st).
                 idR (receivables st ! k) \<noteq> idR r \<longrightarrow> receivables st' ! k = receivables st ! k)
           \<and> revenues st' = revenues st
           \<and> (\<forall>updateRow updateOther.
                 updateRow (idR r) d t dd
                   = Returned (r\<lparr>descriptionR := d, totalAmount := t, dueDate := dd\<rparr>) \<longrightarrow>
                 receivables
                   (handleUpdateItemRemote updateRow updateOther d t dd
                      (handleOpenEditModal (EditReceivable r) st))
                   = changed))"
proof -
  let ?g = "\<lambda>x. x\<lparr>descriptionR := d, totalAmount := t, dueDate := dd\<rparr>"
  let ?st' = "handleUpdateItem d t dd (handleOpenEditModal (EditReceivable r) st)"
  let ?changed = "map (\<lambda>x. if idR x = idR r then ?g x else x) (receivables st)"
  have own: "map (\<lambda>x. if idR x = idR r then ?g r else x) (receivables st) = ?changed"
    using map_replace_own [OF assms, of ?g] by simp
  have "receivables ?st' = map (\<lambda>x. if idR x = idR r then ?g r else x) (receivables st)"
    by (simp add: handleUpdateItem_def handleOpenEditModal_def handleCloseEditModal_def)
  then have rs: "receivables ?st' = ?changed"
    using own by simp
  have rev: "revenues ?st' = revenues st"
    by (simp add: handleUpdateItem_def handleOpenEditModal_def handleCloseEditModal_def)
  have paid: "map paidAmount (receivables ?st') = map paidAmount (receivables st)"
    unfolding rs by (induction "receivables st") auto
  have ids: "map idR (receivables ?st') = map idR (receivables st)"
    unfolding rs by (induction "receivables st") auto
  have others: "\<forall>k < length (receivables st).
                 idR (receivables st ! k) \<noteq> idR r \<longrightarrow> receivables ?st' ! k = receivables st ! k"
    unfolding rs by simp
  have remote: "\<forall>updateRow updateOther.
                  updateRow (idR r) d t dd = Returned (?g r) \<longrightarrow>
                  receivables
                    (handleUpdateItemRemote updateRow updateOther d t dd
                       (handleOpenEditModal (EditReceivable r) st))
                    = ?changed"
    using own
    by (simp add: handleUpdateItemRemote_def handleOpenEditModal_def handleCloseEditModal_def)
  show ?thesis
    unfolding Let_def using rs rev paid ids others remote by blast
qed

section \<open>The projected order\<close>

lemma set_insertSorted: "set (insertSorted e cmp x ys) = insert x (set ys)"
  by (induction ys) auto

lemma set_arraySort: "set (arraySort e cmp xs) = set xs"
  by (induction xs) (simp_all add: set_insertSorted)

lemma keepsOrder_cong:
  "cmp1 x y = cmp2 x y \<Longrightarrow> cmp1 y x = cmp2 y x \<Longrightarrow>
   keepsOrder e cmp1 x y = keepsOrder e cmp2 x y"
  by (cases e) (simp_all add: keepsOrder_def sortCompare_def)

lemma insertSorted_cong:
  assumes "\<forall>y\<in>set ys. cmp1 x y = cmp2 x y \<and> cmp1 y x = cmp2 y x"
  shows "insertSorted e cmp1 x ys = insertSorted e cmp2 x ys"
  using assms
proof (induction ys)
  case Nil
  then show ?case by simp
next
  case (Cons y ys)
  then have "keepsOrder e cmp1 x y = keepsOrder e cmp2 x y"
    by (intro keepsOrder_cong) simp_all
  with Cons show ?case by simp
qed

lemma arraySort_cong:
  assumes "\<forall>x\<in>set xs. \<forall>y\<in>set xs. cmp1 x y = cmp2 x y"
  shows "arraySort e cmp1 xs = arraySort e cmp2 xs"
  using assms
proof (induction xs)
  case Nil
  then show ?case by simp
next
  case (Cons x xs)
  then have "arraySort e cmp1 xs = arraySort e cmp2 xs" by simp
  moreover have "\<forall>y\<in>set (arraySort e cmp2 xs). cmp1 x y = cmp2 x y \<and> cmp1 y x = cmp2 y x"
    using Cons.prems by (simp add: set_arraySort)
  ultimately show ?case by (simp add: insertSorted_cong)
qed

lemma local_remote_agree:
  assumes "\<forall>r\<in>set rs. dueDate r \<noteq> []"
  shows "sortedReceivables e getTime rs = sortedReceivablesRemote e getTime rs"
  unfolding sortedReceivables_def sortedReceivablesRemote_def
  using assms
  by (intro arraySort_cong) (simp add: compareReceivables_def compareReceivablesRemote_def)

lemma mset_insertSorted: "mset (insertSorted e cmp x ys) = add_mset x (mset ys)"
  by (induction ys) simp_all

lemma mset_arraySort: "mset (arraySort e cmp xs) = mset xs"
  by (induction xs) (simp_all add: mset_insertSorted)

lemma sorted_insertSorted:
  assumes "sorted (map key ys)"
    and "\<forall>y\<in>set ys. (keepsOrder e cmp x y \<longrightarrow> key x \<le> key y)
                     \<and> (\<not> keepsOrder e cmp x y \<longrightarrow> key y \<le> key x)"
  shows "sorted (map key (insertSorted e cmp x ys))"
  using assms
proof (induction ys)
  case Nil
  then show ?case by simp
next
  case (Cons y ys)
  show ?case
  proof (cases "keepsOrder e cmp x y")
    case True
    then have "key x \<le> key y" using Cons.prems(2) by simp
    moreover have "\<forall>z\<in>set ys. key y \<le> key z" using Cons.prems(1) by simp
    ultimately have "\<forall>z\<in>set (y # ys). key x \<le> key z" by auto
    with True Cons.prems(1) show ?thesis by simp
  next
    case False
    then have yx: "key y \<le> key x" using Cons.prems(2) by simp
    have "sorted (map key (insertSorted e cmp x ys))"
      using Cons.IH Cons.prems by simp
    moreover have "\<forall>z\<in>set (insertSorted e cmp x ys). key y \<le> key z"
      using yx Cons.prems(1) by (simp add: set_insertSorted)
    ultimately show ?thesis using False by simp
  qed
qed

lemma sorted_arraySort:
  assumes "\<forall>x\<in>set xs. \<forall>y\<in>set xs.
             (keepsOrder e cmp x y \<longrightarrow> key x \<le> key y)
             \<and> (\<not> keepsOrder e cmp x y \<longrightarrow> key y \<le> key x)"
  shows "sorted (map key (arraySort e cmp xs))"
  using assms
proof (induction xs)
  case Nil
  then show ?case by simp
next
  case (Cons x xs)
  then have "sorted (map key (arraySort e cmp xs))" by simp
  moreover have "\<forall>y\<in>set (arraySort e cmp xs).
                   (keepsOrder e cmp x y \<longrightarrow> key x \<le> key y)
                   \<and> (\<not> keepsOrder e cmp x y \<longrightarrow> key y \<le> key x)"
    using Cons.prems by (simp add: set_arraySort)
  ultimately show ?case by (simp add: sorted_insertSorted)
qed

lemma filter_insertSorted:
  assumes "key x = k \<Longrightarrow> \<forall>y\<in>set ys. key y = k \<longrightarrow> keepsOrder e cmp x y"
  shows "filter (\<lambda>r. key r = k) (insertSorted e cmp x ys) = filter (\<lambda>r. key r = k) (x # ys)"
  using assms by (induction ys) auto

lemma filter_arraySort:
  assumes "\<forall>x\<in>set xs. \<forall>y\<in>set xs. key x = k \<and> key y = k \<longrightarrow> keepsOrder e cmp x y"
  shows "filter (\<lambda>r. key r = k) (arraySort e cmp xs) = filter (\<lambda>r. key r = k) xs"
  using assms
proof (induction xs)
  case Nil
  then show ?case by simp
next
  case (Cons x xs)
  have "filter (\<lambda>r. key r = k) (insertSorted e cmp x (arraySort e cmp xs))
          = filter (\<lambda>r. key r = k) (x # arraySort e cmp xs)"
    using Cons.prems by (intro filter_insertSorted) (simp add: set_arraySort)
  with Cons show ?case by simp
qed

lemma remote_weakly_consistent:
  assumes "dueDate x = [] \<or> getTime (dueDate x) \<noteq> NaN"
    and "dueDate y = [] \<or> getTime (dueDate y) \<noteq> NaN"
  shows "(keepsOrder e (compareReceivablesRemote getTime) x y
            \<longrightarrow> sortKey getTime x \<le> sortKey getTime y)
         \<and> (\<not> keepsOrder e (compareReceivablesRemote getTime) x y
            \<longrightarrow> sortKey getTime y \<le> sortKey getTime x)"
  using assms
  by (cases e; cases "getTime (dueDate x)"; cases "getTime (dueDate y)")
     (auto simp: keepsOrder_def sortCompare_def compareReceivablesRemote_def sortKey_def
        hasBalance_def timeOf_def Let_def)

lemma remote_keeps_dated_ties:
  assumes "dueDate x = [] \<or> getTime (dueDate x) \<noteq> NaN"
    and "dueDate y = [] \<or> getTime (dueDate y) \<noteq> NaN"
    and "sortKey getTime x = (p, 0, t)" and "sortKey getTime y = (p, 0, t)"
  shows "keepsOrder e (compareReceivablesRemote getTime) x y"
  using assms
  by (cases e; cases "getTime (dueDate x)"; cases "getTime (dueDate y)")
     (auto simp: keepsOrder_def sortCompare_def compareReceivablesRemote_def sortKey_def
        hasBalance_def timeOf_def Let_def split: if_splits)

lemma sortKey_le_unfold:
  "(sortKey getTime a \<le> sortKey getTime b) =
     ((hasBalance a \<and> \<not> hasBalance b) \<or>
      (hasBalance a = hasBalance b \<and>
        ((dueDate a \<noteq> [] \<and> dueDate b = []) \<or>
         (dueDate a = [] \<and> dueDate b = []) \<or>
         (dueDate a \<noteq> [] \<and> dueDate b \<noteq> [] \<and> timeOf getTime a \<le> timeOf getTime b))))"
  by (auto simp: sortKey_def)

text \<open>
  C7 (amended). Take a list of receivables in which every due date that is present can
  be read by the engine. The projected order of the remote variant is then a
  rearrangement of the list in which no record without a balance precedes a record
  with one; within a partition no record without a due date precedes a dated one, and
  dated records are ascending by due date; and dated records with equal sort keys keep
  their relative order. This holds for either convention of the engine's sort. When
  no due date is missing, the local variant gives the same order.
\<close>

theorem sortedReceivables_order:
  assumes "datesParse getTime rs"
  shows "(let ys = sortedReceivablesRemote e getTime rs
          in mset ys = mset rs
           \<and> (\<forall>i j. i < j \<and> j < length ys \<longrightarrow>
                 \<not> (\<not> hasBalance (ys ! i) \<and> hasBalance (ys ! j))
               \<and> (hasBalance (ys ! i) = hasBalance (ys ! j) \<longrightarrow>
                    \<not> (dueDate (ys ! i) = [] \<and> dueDate (ys ! j) \<noteq> [])
                  \<and> (dueDate (ys ! i) \<noteq> [] \<and> dueDate (ys ! j) \<noteq> [] \<longrightarrow>
                       timeOf getTime (ys ! i) \<le> timeOf getTime (ys ! j))))
           \<and> (\<forall>p t. filter (\<lambda>r. sortKey getTime r = (p, 0, t)) ys
                      = filter (\<lambda>r. sortKey getTime r = (p, 0, t)) rs)
           \<and> ((\<forall>r\<in>set rs. dueDate r \<noteq> []) \<longrightarrow> sortedReceivables e getTime rs = ys))"
proof -
  let ?cmp = "compareReceivablesRemote getTime"
  let ?ys = "sortedReceivablesRemote e getTime rs"
  have parse: "dueDate r = [] \<or> getTime (dueDate r) \<noteq> NaN" if "r \<in> set rs" for r
    using assms that by (simp add: datesParse_def list_all_iff)
  have perm: "mset ?ys = mset rs"
    by (simp add: sortedReceivablesRemote_def mset_arraySort)
  have "sorted (map (sortKey getTime) ?ys)"
    unfolding sortedReceivablesRemote_def
    by (intro sorted_arraySort ballI remote_weakly_consistent parse)
  then have le: "sortKey getTime (?ys ! i) \<le> sortKey getTime (?ys ! j)"
    if "i < j" "j < length ?ys" for i j
    using that by (simp add: sorted_iff_nth_mono)
  have order: "\<forall>i j. i < j \<and> j < length ?ys \<longrightarrow>
                 \<not> (\<not> hasBalance (?ys ! i) \<and> hasBalance (?ys ! j))
               \<and> (hasBalance (?ys ! i) = hasBalance (?ys ! j) \<longrightarrow>
                    \<not> (dueDate (?ys ! i) = [] \<and> dueDate (?ys ! j) \<noteq> [])
                  \<and> (dueDate (?ys ! i) \<noteq> [] \<and> dueDate (?ys ! j) \<noteq> [] \<longrightarrow>
                       timeOf getTime (?ys ! i) \<le> timeOf getTime (?ys ! j)))"
  proof (intro allI impI)
    fix i j assume "i < j \<and> j < length ?ys"
    then have "sortKey getTime (?ys ! i) \<le> sortKey getTime (?ys ! j)"
      using le by blast
    then show "\<not> (\<not> hasBalance (?ys ! i) \<and> hasBalance (?ys ! j))
               \<and> (hasBalance (?ys ! i) = hasBalance (?ys ! j) \<longrightarrow>
                    \<not> (dueDate (?ys ! i) = [] \<and> dueDate (?ys ! j) \<noteq> [])
                  \<and> (dueDate (?ys ! i) \<noteq> [] \<and> dueDate (?ys ! j) \<noteq> [] \<longrightarrow>
                       timeOf getTime (?ys ! i) \<le> timeOf getTime (?ys ! j)))"
      unfolding sortKey_le_unfold by blast
  qed
  have stable: "\<forall>p t. filter (\<lambda>r. sortKey getTime r = (p, 0, t)) ?ys
                      = filter (\<lambda>r. sortKey getTime r = (p, 0, t)) rs"
  proof (intro allI)
    fix p t
    have "\<forall>x\<in>set rs. \<forall>y\<in>set rs.
            sortKey getTime x = (p, 0, t) \<and> sortKey getTime y = (p, 0, t)
            \<longrightarrow> keepsOrder e ?cmp x y"
      using remote_keeps_dated_ties parse by blast
    then show "filter (\<lambda>r. sortKey getTime r = (p, 0, t)) ?ys
                 = filter (\<lambda>r. sortKey getTime r = (p, 0, t)) rs"
      unfolding sortedReceivablesRemote_def by (rule filter_arraySort)
  qed
  have loc: "(\<forall>r\<in>set rs. dueDate r \<noteq> []) \<longrightarrow> sortedReceivables e getTime rs = ?ys"
    by (simp add: local_remote_agree)
  show ?thesis
    unfolding Let_def using perm order stable loc by blast
qed

text \<open>
  The example of the specification with one undated record added, and the example
  itself in the local variant.
\<close>

theorem sortedReceivables_order_witness:
  "datesParse getTimeISO exampleReceivables
   \<and> mset (sortedReceivablesRemote EarlierFirst getTimeISO exampleReceivables)
     = mset exampleReceivables
   \<and> sortedReceivablesRemote EarlierFirst getTimeISO exampleReceivables
     = [mkReceivable ''c'' 200 0 ''2024-03-01'', mkReceivable ''b'' 500 0 ''2024-06-01'',
        mkReceivable ''u'' 300 0 [], mkReceivable ''a'' 1000 1000 ''2024-01-01'']
   \<and> sortedReceivables LaterFirst getTimeISO
       [mkReceivable ''a'' 1000 1000 ''2024-01-01'', mkReceivable ''b'' 500 0 ''2024-06-01'',
        mkReceivable ''c'' 200 0 ''2024-03-01'']
     = [mkReceivable ''c'' 200 0 ''2024-03-01'', mkReceivable ''b'' 500 0 ''2024-06-01'',
        mkReceivable ''a'' 1000 1000 ''2024-01-01'']"
proof -
  have h1: "datesParse getTimeISO exampleReceivables" by code_simp
  have "mset (sortedReceivablesRemote EarlierFirst getTimeISO exampleReceivables)
          = mset exampleReceivables"
    using sortedReceivables_order [OF h1, of EarlierFirst] unfolding Let_def by blast
  moreover
  have "sortedReceivablesRemote EarlierFirst getTimeISO exampleReceivables
          = [mkReceivable ''c'' 200 0 ''2024-03-01'', mkReceivable ''b'' 500 0 ''2024-06-01'',
             mkReceivable ''u'' 300 0 [], mkReceivable ''a'' 1000 1000 ''2024-01-01'']"
    by code_simp
  moreover
  have "sortedReceivables LaterFirst getTimeISO
          [mkReceivable ''a'' 1000 1000 ''2024-01-01'', mkReceivable ''b'' 500 0 ''2024-06-01'',
           mkReceivable ''c'' 200 0 ''2024-03-01'']
        = [mkReceivable ''c'' 200 0 ''2024-03-01'', mkReceivable ''b'' 500 0 ''2024-06-01'',
           mkReceivable ''a'' 1000 1000 ''2024-01-01'']"
    by code_simp
  ultimately show ?thesis using h1 by blast
qed

text \<open>
  The comparator of the local variant has no rule for a missing due date: the
  difference of the times is \<^verbatim>\<open>NaN\<close>, which the sort reads as equal. An undated
  record that is stored before a dated one of its partition stays before it, with
  either convention.
\<close>

theorem undated_before_dated_counterexample:
  "sortedReceivables EarlierFirst getTimeISO
     [mkReceivable ''u'' 300 0 [], mkReceivable ''b'' 500 0 ''2024-06-01'']
     = [mkReceivable ''u'' 300 0 [], mkReceivable ''b'' 500 0 ''2024-06-01'']
   \<and> sortedReceivables LaterFirst getTimeISO
       [mkReceivable ''u'' 300 0 [], mkReceivable ''b'' 500 0 ''2024-06-01'']
     = [mkReceivable ''u'' 300 0 [], mkReceivable ''b'' 500 0 ''2024-06-01'']
   \<and> hasBalance (mkReceivable ''u'' 300 0 [])
   \<and> hasBalance (mkReceivable ''b'' 500 0 ''2024-06-01'')
   \<and> dueDate (mkReceivable ''u'' 300 0 []) = []
   \<and> getTimeISO (dueDate (mkReceivable ''b'' 500 0 ''2024-06-01'')) = Num 1717200000000"
  by code_simp

text \<open>
  The comparator of the remote variant answers 1 for two undated records of one
  partition in either order of its arguments. The two conventions then disagree: one
  reverses the two records, the other keeps them.
\<close>

lemma two_undated_depend_on_engine:
  "sortedReceivablesRemote EarlierFirst getTimeISO
     [mkReceivable ''u'' 300 0 [], mkReceivable ''v'' 500 0 []]
     = [mkReceivable ''v'' 500 0 [], mkReceivable ''u'' 300 0 []]
   \<and> sortedReceivablesRemote LaterFirst getTimeISO
       [mkReceivable ''u'' 300 0 [], mkReceivable ''v'' 500 0 []]
     = [mkReceivable ''u'' 300 0 [], mkReceivable ''v'' 500 0 []]
   \<and> compareReceivablesRemote getTimeISO
       (mkReceivable ''u'' 300 0 []) (mkReceivable ''v'' 500 0 []) = Num 1
   \<and> compareReceivablesRemote getTimeISO
       (mkReceivable ''v'' 500 0 []) (mkReceivable ''u'' 300 0 []) = Num 1"
  by code_simp

end
